theory Spec2Isabelle
  imports Complex_Main "HOL-Library.AList"
begin

section \<open>Python values seen by the parser\<close>

text \<open>
  A character of a Python \<open>str\<close> is modelled by a \<open>char\<close>, read as a code point
  below 256: the code points 0 to 127 are ASCII, 128 to 255 are the non-ASCII ones.
  Bytes of a file are \<open>char\<close>s too. Python integers are unbounded: \<open>int\<close>.

  A Python \<open>float\<close> is modelled by the number its literal denotes: a finite value is a
  rational, and the rounding to binary64 is left out.
\<close>

datatype pyfloat = Finite rat | PosInf | NegInf | NaN

datatype error = NotPtdFile | NotPetFile | OSError | ValueError | TypeError | OverflowError
  | ReadFileError

text \<open>
  The element of a multi-valued field is a \<open>str\<close>, an \<open>int\<close> or a \<open>float\<close>. The value
  of a tag is a Sequence of data sets, or a plain value: a \<open>str\<close>, an \<open>int\<close>, a
  \<open>float\<close>, a person name (with its \<open>str()\<close>), a UID (a subclass of \<open>str\<close>), a list or
  MultiValue. A data set is the list of its (tag, value) entries in the order of \<open>dir()\<close>,
  each tag once.
\<close>

datatype elem = EStr string | EInt int | EFloat pyfloat

datatype plain = VStr string | VInt int | VFloat pyfloat | VPersonName string | VUID string
  | VMulti "elem list"

datatype pyvalue = Val plain | VSeq "(string \<times> pyvalue) list list"

type_synonym dataset = "(string \<times> pyvalue) list"

text \<open>What the functions return: \<open>None\<close>, a number, a string, a list or a dict.\<close>

datatype nvalue = NNone | NInt int | NFloat pyfloat | NStr string | NList "nvalue list"
  | NDict "(string \<times> nvalue) list"

type_synonym ndict = "(string \<times> nvalue) list"

text \<open>Truth value of a result, as \<open>if formatted:\<close> and \<open>if s_val:\<close> test it.\<close>

fun float_bool :: "pyfloat \<Rightarrow> bool" where
  "float_bool (Finite q) = (q \<noteq> 0)"
| "float_bool _ = True"

fun truthy :: "nvalue \<Rightarrow> bool" where
  "truthy NNone = False"
| "truthy (NInt i) = (i \<noteq> 0)"
| "truthy (NFloat f) = float_bool f"
| "truthy (NStr s) = (s \<noteq> [])"
| "truthy (NList xs) = (xs \<noteq> [])"
| "truthy (NDict d) = (d \<noteq> [])"

section \<open>The builtins \<open>int()\<close> and \<open>float()\<close> on strings\<close>

definition code :: "char \<Rightarrow> nat" where
  "code c = of_char c"

definition is_digit :: "char \<Rightarrow> bool" where
  "is_digit c = (48 \<le> code c \<and> code c \<le> 57)"

text \<open>The white space both builtins strip: HT, LF, VT, FF, CR and the space.\<close>

definition is_space :: "char \<Rightarrow> bool" where
  "is_space c = ((9 \<le> code c \<and> code c \<le> 13) \<or> code c = 32)"

text \<open>
  In a string with a non-ASCII character the builtins first turn the non-ASCII white space
  (NEL 0x85 and NBSP 0xA0 below 256) into a space. Every other non-ASCII character fails
  the parse, as no literal contains one.
\<close>

definition to_ascii_space :: "char \<Rightarrow> char" where
  "to_ascii_space c = (if code c = 133 \<or> code c = 160 then CHR '' '' else c)"

definition strip :: "string \<Rightarrow> string" where
  "strip s = rev (dropWhile is_space (rev (dropWhile is_space s)))"

text \<open>
  An underscore is accepted between two digits only; the literal is read without them.
  \<open>prev\<close> is the character before, \<open>None\<close> at the start.
\<close>

fun remove_underscores :: "char option \<Rightarrow> string \<Rightarrow> string option" where
  "remove_underscores prev [] = (if prev = Some CHR ''_'' then None else Some [])"
| "remove_underscores prev (c # cs) =
     (if c = CHR ''_'' then
        (case prev of None \<Rightarrow> None
         | Some p \<Rightarrow> if is_digit p then remove_underscores (Some c) cs else None)
      else if prev = Some CHR ''_'' \<and> \<not> is_digit c then None
      else map_option ((#) c) (remove_underscores (Some c) cs))"

definition literal :: "string \<Rightarrow> string option" where
  "literal s = remove_underscores None (strip (map to_ascii_space s))"

fun split_sign :: "string \<Rightarrow> bool \<times> string" where
  "split_sign (c # cs) =
     (if c = CHR ''-'' then (True, cs) else if c = CHR ''+'' then (False, cs) else (False, c # cs))"
| "split_sign [] = (False, [])"

definition nat_of_digits :: "string \<Rightarrow> nat" where
  "nat_of_digits ds = foldl (\<lambda>a c. 10 * a + (code c - 48)) 0 ds"

definition all_digits :: "string \<Rightarrow> bool" where
  "all_digits s = (s \<noteq> [] \<and> list_all is_digit s)"

definition signed :: "bool \<Rightarrow> nat \<Rightarrow> int" where
  "signed neg n = (if neg then - int n else int n)"

text \<open>\<open>int(s)\<close> in base 10: \<open>None\<close> is the ValueError.\<close>

definition int_of_str :: "string \<Rightarrow> int option" where
  "int_of_str s =
     (case literal s of None \<Rightarrow> None
      | Some t \<Rightarrow> (case split_sign t of (neg, r) \<Rightarrow>
          if all_digits r then Some (signed neg (nat_of_digits r)) else None))"

definition lower :: "char \<Rightarrow> char" where
  "lower c = (if 65 \<le> code c \<and> code c \<le> 90 then char_of (code c + 32) else c)"

definition decimal :: "bool \<Rightarrow> string \<Rightarrow> string \<Rightarrow> int \<Rightarrow> pyfloat" where
  "decimal neg ip fp e =
     (let m = of_int (signed neg (nat_of_digits (ip @ fp))) :: rat;
          x = e - int (length fp)
      in Finite (if 0 \<le> x then m * 10 ^ nat x else m / 10 ^ nat (- x)))"

text \<open>
  \<open>float(s)\<close>: an optional sign, then \<open>inf\<close>, \<open>infinity\<close> or \<open>nan\<close> in any case, or
  digits with an optional point and an optional exponent, with one digit at least before
  the exponent. \<open>None\<close> is the ValueError.
\<close>

definition float_of_str :: "string \<Rightarrow> pyfloat option" where
  "float_of_str s =
     (case literal s of None \<Rightarrow> None
      | Some t \<Rightarrow> (case split_sign t of (neg, r) \<Rightarrow>
          if map lower r = ''inf'' \<or> map lower r = ''infinity''
            then Some (if neg then NegInf else PosInf)
          else if map lower r = ''nan'' then Some NaN
          else
            (let ip = takeWhile is_digit r; r1 = dropWhile is_digit r;
                 fp = (case r1 of [] \<Rightarrow> []
                       | c # r' \<Rightarrow> if c = CHR ''.'' then takeWhile is_digit r' else []);
                 r2 = (case r1 of [] \<Rightarrow> []
                       | c # r' \<Rightarrow> if c = CHR ''.'' then dropWhile is_digit r' else r1)
             in if ip = [] \<and> fp = [] then None
                else (case r2 of [] \<Rightarrow> Some (decimal neg ip fp 0)
                      | c # r3 \<Rightarrow>
                          if c = CHR ''e'' \<or> c = CHR ''E'' then
                            (case split_sign r3 of (eneg, ed) \<Rightarrow>
                               if all_digits ed
                                 then Some (decimal neg ip fp (signed eneg (nat_of_digits ed)))
                               else None)
                          else None))))"

section \<open>\<open>format_string\<close>\<close>

text \<open>
  \<open>string.printable\<close> is the digits, the ASCII letters, the punctuation (together the
  code points 33 to 126) and the white space: space, HT, LF, CR, VT, FF.
\<close>

definition printable :: "char \<Rightarrow> bool" where
  "printable c = ((32 \<le> code c \<and> code c \<le> 126) \<or> (9 \<le> code c \<and> code c \<le> 13))"

definition format_string :: "string \<Rightarrow> nvalue" where
  "format_string in_string =
     (let formatted = filter (\<lambda>c. code c \<le> 127) in_string;
          formatted = filter printable formatted
      in if (length formatted = 1 \<and> formatted = ''?'') \<or> length formatted = 0 then NNone
         else NStr formatted)"

section \<open>\<open>assign_type\<close>\<close>

text \<open>\<open>int(x)\<close> of a list element: a float is truncated towards zero.\<close>

definition trunc :: "rat \<Rightarrow> int" where
  "trunc q = (if 0 \<le> q then \<lfloor>q\<rfloor> else - \<lfloor>- q\<rfloor>)"

fun int_of_elem :: "elem \<Rightarrow> error + int" where
  "int_of_elem (EStr s) = (case int_of_str s of None \<Rightarrow> Inl ValueError | Some i \<Rightarrow> Inr i)"
| "int_of_elem (EInt i) = Inr i"
| "int_of_elem (EFloat (Finite q)) = Inr (trunc q)"
| "int_of_elem (EFloat NaN) = Inl ValueError"
| "int_of_elem (EFloat _) = Inl OverflowError"

fun float_of_elem :: "elem \<Rightarrow> error + pyfloat" where
  "float_of_elem (EStr s) = (case float_of_str s of None \<Rightarrow> Inl ValueError | Some f \<Rightarrow> Inr f)"
| "float_of_elem (EInt i) = Inr (Finite (of_int i))"
| "float_of_elem (EFloat f) = Inr f"

text \<open>A list comprehension stops at the first element that raises.\<close>

fun comprehension :: "('a \<Rightarrow> error + 'b) \<Rightarrow> 'a list \<Rightarrow> error + 'b list" where
  "comprehension f [] = Inr []"
| "comprehension f (x # xs) =
     (case f x of Inl e \<Rightarrow> Inl e
      | Inr y \<Rightarrow> (case comprehension f xs of Inl e \<Rightarrow> Inl e | Inr ys \<Rightarrow> Inr (y # ys)))"

text \<open>
  \<open>[format_string(x) for x in s if len(x) > 0]\<close>: \<open>len\<close> of a number is a TypeError.
\<close>

fun format_elems :: "elem list \<Rightarrow> error + nvalue list" where
  "format_elems [] = Inr []"
| "format_elems (EStr x # xs) =
     (case format_elems xs of Inl e \<Rightarrow> Inl e
      | Inr ys \<Rightarrow> Inr (if length x > 0 then format_string x # ys else ys))"
| "format_elems (_ # xs) = Inl TypeError"

text \<open>
  A scalar is turned into its \<open>str()\<close> first. For an \<open>int\<close> that is its decimal numeral,
  which \<open>int()\<close> reads back; for a \<open>float\<close> it is its \<open>repr\<close>, which has a point, an
  exponent, \<open>inf\<close> or \<open>nan\<close>, so that \<open>int()\<close> raises ValueError and \<open>float()\<close> reads the
  same float back.
\<close>

definition assign_str :: "string \<Rightarrow> nvalue" where
  "assign_str s =
     (case int_of_str s of Some i \<Rightarrow> NInt i
      | None \<Rightarrow> (case float_of_str s of Some f \<Rightarrow> NFloat f
          | None \<Rightarrow> format_string s))"

fun assign_type :: "plain \<Rightarrow> error + nvalue" where
  "assign_type (VPersonName s) = Inr (format_string s)"
| "assign_type (VMulti s) =
     (case comprehension int_of_elem s of Inr is \<Rightarrow> Inr (NList (map NInt is))
      | Inl ValueError \<Rightarrow>
          (case comprehension float_of_elem s of Inr fs \<Rightarrow> Inr (NList (map NFloat fs))
           | Inl ValueError \<Rightarrow>
               (case format_elems s of Inl e \<Rightarrow> Inl e | Inr ys \<Rightarrow> Inr (NList ys))
           | Inl e \<Rightarrow> Inl e)
      | Inl e \<Rightarrow> Inl e)"
| "assign_type (VStr s) = Inr (assign_str s)"
| "assign_type (VUID s) = Inr (assign_str s)"
| "assign_type (VInt i) = Inr (NInt i)"
| "assign_type (VFloat f) = Inr (NFloat f)"

section \<open>\<open>ptd_reader\<close>\<close>

definition MAGIC_STR :: string where
  "MAGIC_STR = ''LARGE_PET_LM_RAWDATA''"

definition MAGIC_STR_LEN :: nat where
  "MAGIC_STR_LEN = length MAGIC_STR"

text \<open>
  \<open>struct.unpack('i', b)\<close> reads four bytes as a signed integer in the byte order of the
  machine, which is a parameter here.
\<close>

datatype byteorder = LittleEndian | BigEndian

definition calcsize_i :: nat where
  "calcsize_i = 4"

definition unsigned_le :: "string \<Rightarrow> int" where
  "unsigned_le b = foldr (\<lambda>c a. int (code c) + 256 * a) b 0"

definition unpack_i :: "byteorder \<Rightarrow> string \<Rightarrow> int" where
  "unpack_i host b =
     (let u = unsigned_le (case host of LittleEndian \<Rightarrow> b | BigEndian \<Rightarrow> rev b)
      in if u < 2 ^ 31 then u else u - 2 ^ 32)"

text \<open>
  \<open>fp.seek(off, 2)\<close> on a file of \<open>n\<close> bytes moves to \<open>n + off\<close>, and raises OSError when
  that is negative; a position after the end is accepted.
\<close>

definition seek_end :: "nat \<Rightarrow> int \<Rightarrow> error + nat" where
  "seek_end n off = (if int n + off < 0 then Inl OSError else Inr (nat (int n + off)))"

text \<open>
  \<open>fp.read(k)\<close> of a buffered reader at position \<open>pos\<close>: \<open>k\<close> bytes, or those left when
  there are fewer; everything up to the end for \<open>-1\<close>; a ValueError below \<open>-1\<close>.
\<close>

definition read_at :: "string \<Rightarrow> nat \<Rightarrow> int \<Rightarrow> error + string" where
  "read_at f pos k =
     (if k < - 1 then Inl ValueError
      else if k = - 1 then Inr (drop pos f)
      else Inr (take (nat k) (drop pos f)))"

text \<open>Lines 26 to 41: the bytes handed to the decoder.\<close>

definition dcm_buf :: "byteorder \<Rightarrow> string \<Rightarrow> error + string" where
  "dcm_buf host f =
     (case seek_end (length f) (- int MAGIC_STR_LEN) of Inl e \<Rightarrow> Inl e
      | Inr p0 \<Rightarrow>
     (case read_at f p0 (int MAGIC_STR_LEN) of Inl e \<Rightarrow> Inl e
      | Inr m \<Rightarrow>
     if m \<noteq> MAGIC_STR then Inl NotPtdFile
     else
     (case seek_end (length f) (- int MAGIC_STR_LEN - int calcsize_i) of Inl e \<Rightarrow> Inl e
      | Inr p1 \<Rightarrow>
     (case read_at f p1 (int calcsize_i) of Inl e \<Rightarrow> Inl e
      | Inr b \<Rightarrow>
     (let offset = unpack_i host b in
     (case seek_end (length f) (- offset - int MAGIC_STR_LEN - int calcsize_i) of Inl e \<Rightarrow> Inl e
      | Inr p2 \<Rightarrow> read_at f p2 offset))))))"

text \<open>
  \<open>pydicom.read_file\<close> is the decoder, a parameter: \<open>None\<close> when it raises.
\<close>

definition ptd_reader :: "(string \<Rightarrow> dataset option) \<Rightarrow> byteorder \<Rightarrow> string \<Rightarrow> error + dataset" where
  "ptd_reader read_file host f =
     (case dcm_buf host f of Inl e \<Rightarrow> Inl e
      | Inr buf \<Rightarrow> (case read_file buf of None \<Rightarrow> Inl ReadFileError | Some ptd \<Rightarrow> Inr ptd))"

section \<open>\<open>get_seq_data\<close>\<close>

text \<open>
  \<open>seq_groups\<close> is the loop over the groups of the sequence and \<open>seq_keys\<close> the loop over
  the keys of one group; both carry \<open>seq_dict\<close>. An exception of \<open>assign_type\<close> leaves
  the function.
\<close>

fun is_UID :: "pyvalue \<Rightarrow> bool" where
  "is_UID (Val (VUID u)) = True"
| "is_UID _ = False"

fun seq_groups :: "dataset list \<Rightarrow> string list \<Rightarrow> ndict \<Rightarrow> error + ndict"
  and seq_keys :: "dataset \<Rightarrow> string list \<Rightarrow> ndict \<Rightarrow> error + ndict" where
  "seq_groups [] ignore_keys seq_dict = Inr seq_dict"
| "seq_groups (seq # sequence) ignore_keys seq_dict =
     (case seq_keys seq ignore_keys seq_dict of Inl e \<Rightarrow> Inl e
      | Inr seq_dict' \<Rightarrow> seq_groups sequence ignore_keys seq_dict')"
| "seq_keys [] ignore_keys seq_dict = Inr seq_dict"
| "seq_keys ((s_key, s_val) # rest) ignore_keys seq_dict =
     (if is_UID s_val \<or> s_key \<in> set ignore_keys then seq_keys rest ignore_keys seq_dict
      else
        (case s_val of
           VSeq sub \<Rightarrow>
             (case seq_groups sub ignore_keys [] of Inl e \<Rightarrow> Inl e
              | Inr seq0 \<Rightarrow> seq_keys rest ignore_keys (AList.update s_key (NDict seq0) seq_dict))
         | Val p \<Rightarrow>
             (case (case p of VStr s \<Rightarrow> Inr (format_string s) | _ \<Rightarrow> assign_type p) of
                Inl e \<Rightarrow> Inl e
              | Inr v \<Rightarrow>
                  seq_keys rest ignore_keys
                    (if truthy v then AList.update s_key v seq_dict else seq_dict))))"

definition get_seq_data :: "dataset list \<Rightarrow> string list \<Rightarrow> error + ndict" where
  "get_seq_data sequence ignore_keys = seq_groups sequence ignore_keys []"

section \<open>\<open>parse_header\<close>\<close>

definition exclude_tags :: "string list" where
  "exclude_tags = [''[Unknown]'', ''PixelData'', ''Pixel Data'', ''[User defined data]'',
     ''[Protocol Data Block (compressed)]'', ''[Histogram tables]'', ''[Unique image iden]'']"

text \<open>\<open>value or value == 0\<close>: a number always passes, anything else when it is not empty.\<close>

fun value_or_zero :: "plain \<Rightarrow> bool" where
  "value_or_zero (VStr s) = (s \<noteq> [])"
| "value_or_zero (VInt i) = True"
| "value_or_zero (VFloat f) = True"
| "value_or_zero (VPersonName s) = (s \<noteq> [])"
| "value_or_zero (VUID s) = (s \<noteq> [])"
| "value_or_zero (VMulti xs) = (xs \<noteq> [])"

text \<open>
  The body of the loop for one tag. The \<open>except\<close> clause swallows every exception and
  goes on with the next tag, the header as it is.
\<close>

definition parse_tag :: "string \<Rightarrow> pyvalue \<Rightarrow> ndict \<Rightarrow> ndict" where
  "parse_tag tag v header =
     (case v of
        Val p \<Rightarrow>
          (case (if tag \<notin> set exclude_tags then
                   (if value_or_zero p then
                      (case p of
                         VStr s \<Rightarrow> if length s < 10240 then Inr (format_string s)
                                   else assign_type p
                       | _ \<Rightarrow> assign_type p)
                    else Inr NNone)
                 else Inr NNone) of
             Inl e \<Rightarrow> header
           | Inr formatted \<Rightarrow> if truthy formatted then AList.update tag formatted header else header)
      | VSeq sq \<Rightarrow>
          (case get_seq_data sq exclude_tags of
             Inl e \<Rightarrow> header
           | Inr seq_data \<Rightarrow>
               if seq_data \<noteq> [] then AList.update tag (NDict seq_data) header else header))"

definition parse_header :: "dataset \<Rightarrow> ndict" where
  "parse_header ptd = fold (\<lambda>(tag, v). parse_tag tag v) ptd []"

section \<open>The script\<close>

definition endswith :: "string \<Rightarrow> string \<Rightarrow> bool" where
  "endswith s suf = (length suf \<le> length s \<and> drop (length s - length suf) s = suf)"

definition metadata_json_out :: "string \<Rightarrow> string \<Rightarrow> ndict \<Rightarrow> nvalue" where
  "metadata_json_out hierarchy_level ptd_name ptd_header =
     NDict [(hierarchy_level, NDict [(''files'', NList [
       NDict [(''name'', NStr ptd_name),
              (''info'', NDict [(''dicom'', NDict ptd_header)]),
              (''modality'', NStr ''PT'')]])])]"

text \<open>
  Lines 176 to 192, on the path, the name and the level of the configuration and the bytes
  of the file. \<open>Inr\<close> is the document dumped to \<open>.metadata.json\<close>; with \<open>Inl\<close> the
  process has ended before the file was opened for writing.
\<close>

definition script :: "(string \<Rightarrow> dataset option) \<Rightarrow> byteorder \<Rightarrow> string \<Rightarrow> string \<Rightarrow> string
    \<Rightarrow> string \<Rightarrow> error + nvalue" where
  "script read_file host ptd_file ptd_name hierarchy_level f =
     (if endswith ptd_file ''.ptd'' then
        (case ptd_reader read_file host f of Inl e \<Rightarrow> Inl e
         | Inr ptd \<Rightarrow> Inr (metadata_json_out hierarchy_level ptd_name (parse_header ptd)))
      else Inl NotPetFile)"

text \<open>The status the process ends with: \<open>sys.exit(1)\<close>, or an exception nobody caught.\<close>

definition exit_status :: "error \<Rightarrow> nat" where
  "exit_status e = 1"

text \<open>What is stored in a dict under a tag for a result: nothing when it is falsy.\<close>

definition stored :: "nvalue \<Rightarrow> nvalue option" where
  "stored v = (if truthy v then Some v else None)"

text \<open>
  Modelled from the spec: \<open>littleEndianLen4\<close>, the four bytes of a length in
  little-endian order, which the round-trip property of the specification uses to build
  a container. It is not part of the parser.
\<close>

definition littleEndianLen4 :: "nat \<Rightarrow> string" where
  "littleEndianLen4 n =
     [char_of n, char_of (n div 256), char_of (n div 65536), char_of (n div 16777216)]"

text \<open>
  Two outcomes of a loop, the first started from the empty dict and the second from \<open>d\<close>,
  agree: the same exception, or the second result is \<open>d\<close> overridden by the first.
\<close>

definition merged :: "ndict \<Rightarrow> error + ndict \<Rightarrow> error + ndict \<Rightarrow> bool" where
  "merged d x y =
     (case x of
        Inl e \<Rightarrow> y = Inl e
      | Inr r \<Rightarrow> (case y of Inl e \<Rightarrow> False | Inr r' \<Rightarrow> map_of r' = map_of d ++ map_of r))"

section \<open>Properties\<close>

subsection \<open>Numeric precedence of \<open>assign_type\<close>\<close>

text \<open>
  C5. \<open>assign_type\<close> tries the integer first, then the float, then the sanitized string:
  the string \<open>"42"\<close> gives the integer 42 although \<open>float()\<close> accepts it as well,
  \<open>"4.5"\<close>, which \<open>int()\<close> rejects, gives the float 4.5, \<open>"abc"\<close> gives the string
  \<open>"abc"\<close>, and \<open>"?"\<close> gives \<open>None\<close>, which no caller stores.
\<close>

theorem assign_type_numeric_precedence:
  "assign_type (VStr ''42'') = Inr (NInt 42) \<and> float_of_str ''42'' = Some (Finite 42)
   \<and> assign_type (VStr ''4.5'') = Inr (NFloat (Finite (9 / 2))) \<and> int_of_str ''4.5'' = None
   \<and> assign_type (VStr ''abc'') = Inr (NStr ''abc'') \<and> assign_type (VStr ''?'') = Inr NNone
   \<and> \<not> truthy NNone"
  by code_simp

subsection \<open>The exclude list at the top level\<close>

text \<open>
  C2. The tag \<open>PixelData\<close> is in the exclude list. With a Sequence as its value at the
  top level, \<open>parse_header\<close> stores it all the same: the second \<open>if\<close> of the loop does
  not look at \<open>exclude_tags\<close>, as the first one and \<open>get_seq_data\<close> do.
\<close>

theorem parse_header_excluded_sequence_kept:
  "''PixelData'' \<in> set exclude_tags
   \<and> parse_header [(''PixelData'', VSeq [[(''A'', Val (VStr ''x''))]])]
       = [(''PixelData'', NDict [(''A'', NStr ''x'')])]"
  by code_simp

subsection \<open>Lists that fall back to strings\<close>

text \<open>
  C6. In the fallback to strings, \<open>assign_type\<close> filters the elements on their length
  before \<open>format_string\<close>, so an element that is sanitized to \<open>None\<close> stays in the list:
  \<open>["?", "x"]\<close> gives \<open>[None, "x"]\<close>. The list \<open>["1", "2", "x"]\<close> of the specification
  gives the three strings.
\<close>

theorem assign_type_list_keeps_none:
  "assign_type (VMulti [EStr ''?'', EStr ''x'']) = Inr (NList [NNone, NStr ''x''])
   \<and> assign_type (VMulti [EStr ''1'', EStr ''2'', EStr ''x''])
       = Inr (NList [NStr ''1'', NStr ''2'', NStr ''x''])"
  by code_simp

subsection \<open>Values that are zero\<close>

text \<open>
  C7. The integer 0 passes the test \<open>value or value == 0\<close>, is normalized to the integer
  0 by \<open>assign_type\<close>, and is then dropped by \<open>if formatted:\<close>; the same holds for the
  float 0.0, and for \<open>if s_val:\<close> in \<open>get_seq_data\<close>.
\<close>

theorem parse_header_drops_zero:
  "assign_type (VInt 0) = Inr (NInt 0)
   \<and> parse_header [(''SeriesNumber'', Val (VInt 0))] = []
   \<and> parse_header [(''SliceLocation'', Val (VFloat (Finite 0)))] = []
   \<and> get_seq_data [[(''SeriesNumber'', Val (VInt 0))]] exclude_tags = Inr []"
  by code_simp

subsection \<open>Empty nested groups\<close>

text \<open>
  C8. Inside \<open>get_seq_data\<close> the result of the recursive call is stored without a test:
  a sequence \<open>B\<close> without groups, nested in the sequence \<open>A\<close>, is the key \<open>B\<close> with an
  empty mapping in the output.
\<close>

theorem get_seq_data_keeps_empty_group:
  "parse_header [(''A'', VSeq [[(''B'', VSeq [])]])] = [(''A'', NDict [(''B'', NDict [])])]"
  by code_simp

subsection \<open>Strings at the top level\<close>

text \<open>What \<open>parse_header\<close> holds for a tag is what the loop body stores for its entry.\<close>

lemma parse_tag_other: "k \<noteq> tag \<Longrightarrow> map_of (parse_tag tag v h) k = map_of h k"
  by (simp add: parse_tag_def update_conv' split: pyvalue.split sum.split)

lemma fold_parse_tag_other:
  "tag \<notin> fst ` set ptd \<Longrightarrow> map_of (fold (\<lambda>(t, v). parse_tag t v) ptd h) tag = map_of h tag"
  by (induction ptd arbitrary: h) (auto simp: parse_tag_other)

lemma parse_tag_fresh:
  "map_of h tag = None \<Longrightarrow> map_of (parse_tag tag v h) tag = map_of (parse_tag tag v []) tag"
  by (simp add: parse_tag_def update_conv' split: pyvalue.split sum.split)

lemma fold_parse_tag_lookup:
  "distinct (map fst ptd) \<Longrightarrow> (tag, v) \<in> set ptd \<Longrightarrow> map_of h tag = None \<Longrightarrow>
   map_of (fold (\<lambda>(t, v). parse_tag t v) ptd h) tag = map_of (parse_tag tag v []) tag"
proof (induction ptd arbitrary: h)
  case Nil
  then show ?case by simp
next
  case (Cons e ptd)
  obtain t w where e: "e = (t, w)" by (cases e)
  show ?case
  proof (cases "t = tag")
    case True
    have fresh: "tag \<notin> fst ` set ptd"
      using Cons.prems(1) e True by simp
    have "w = v"
    proof (rule ccontr)
      assume "w \<noteq> v"
      then have "(tag, v) \<in> set ptd"
        using Cons.prems(2) e True by simp
      then have "fst (tag, v) \<in> fst ` set ptd"
        by (rule imageI)
      with fresh show False by simp
    qed
    have "map_of (fold (\<lambda>(t, v). parse_tag t v) ptd (parse_tag tag v h)) tag
        = map_of (parse_tag tag v h) tag"
      using fresh by (rule fold_parse_tag_other)
    also have "\<dots> = map_of (parse_tag tag v []) tag"
      using Cons.prems(3) by (rule parse_tag_fresh)
    finally show ?thesis
      using True e \<open>w = v\<close> by simp
  next
    case False
    have "distinct (map fst ptd)"
      using Cons.prems(1) by simp
    moreover have "(tag, v) \<in> set ptd"
      using Cons.prems(2) e False by simp
    moreover have "map_of (parse_tag t w h) tag = None"
      using False Cons.prems(3) by (simp add: parse_tag_other)
    ultimately have "map_of (fold (\<lambda>(t, v). parse_tag t v) ptd (parse_tag t w h)) tag
        = map_of (parse_tag tag v []) tag"
      by (rule Cons.IH)
    then show ?thesis
      using e by simp
  qed
qed

lemma parse_header_lookup:
  "distinct (map fst ptd) \<Longrightarrow> (tag, v) \<in> set ptd \<Longrightarrow>
   map_of (parse_header ptd) tag = map_of (parse_tag tag v []) tag"
  unfolding parse_header_def by (rule fold_parse_tag_lookup) simp_all


lemma format_string_cases: "format_string s = NNone \<or> (\<exists>t. t \<noteq> [] \<and> format_string s = NStr t)"
  by (auto simp: format_string_def Let_def)

lemma parse_tag_VStr:
  assumes "tag \<notin> set exclude_tags"
  shows "map_of (parse_tag tag (Val (VStr s)) []) tag =
     (if length s < 10240 then stored (format_string s) else stored (assign_str s))"
proof (cases "s = []")
  case True
  then show ?thesis
    using assms by (simp add: parse_tag_def stored_def format_string_def)
next
  case False
  then show ?thesis
    using assms by (simp add: parse_tag_def stored_def update_conv')
qed

text \<open>
  C1, as amended. For a tag outside the exclude list whose value is a \<open>str\<close>,
  \<open>parse_header\<close> applies \<open>format_string\<close> alone when the string has fewer than
  10240 characters, so that the result is never a number, and \<open>assign_type\<close>, with its
  integer and float coercion, when it has 10240 characters or more.
\<close>

theorem parse_header_string_threshold:
  assumes "distinct (map fst ptd)" and "(tag, Val (VStr s)) \<in> set ptd"
    and "tag \<notin> set exclude_tags"
  shows "map_of (parse_header ptd) tag =
           (if length s < 10240 then stored (format_string s) else stored (assign_str s))
         \<and> assign_type (VStr s) = Inr (assign_str s)
         \<and> (length s < 10240 \<longrightarrow>
              (\<forall>i. map_of (parse_header ptd) tag \<noteq> Some (NInt i))
              \<and> (\<forall>f. map_of (parse_header ptd) tag \<noteq> Some (NFloat f)))"
proof -
  have eq: "map_of (parse_header ptd) tag =
      (if length s < 10240 then stored (format_string s) else stored (assign_str s))"
    using assms by (simp add: parse_header_lookup parse_tag_VStr)
  moreover have "stored (format_string s) \<noteq> Some (NInt i)" for i
    using format_string_cases [of s] by (auto simp: stored_def)
  moreover have "stored (format_string s) \<noteq> Some (NFloat f)" for f
    using format_string_cases [of s] by (auto simp: stored_def)
  ultimately show ?thesis
    by simp
qed

theorem parse_header_string_threshold_witness:
  "distinct (map fst [(''SeriesNumber'', Val (VStr ''42''))])
   \<and> (''SeriesNumber'', Val (VStr ''42'')) \<in> set [(''SeriesNumber'', Val (VStr ''42''))]
   \<and> ''SeriesNumber'' \<notin> set exclude_tags
   \<and> length ''42'' < 10240
   \<and> map_of (parse_header [(''SeriesNumber'', Val (VStr ''42''))]) ''SeriesNumber''
       = stored (format_string ''42'')"
  using parse_header_string_threshold [of "[(''SeriesNumber'', Val (VStr ''42''))]"
      "''SeriesNumber''" "''42''"]
  by (simp add: exclude_tags_def)

text \<open>
  The claim as stated fails in both directions: the two characters \<open>"42"\<close> stay a string,
  and \<open>"42"\<close> followed by 10239 spaces, 10241 characters, becomes the integer 42.
\<close>

lemma strip_trailing_spaces:
  assumes "\<not> is_space c"
  shows "strip (c # s @ replicate n (CHR '' '')) = strip (c # s)"
proof -
  have sp: "is_space (CHR '' '')"
    by (simp add: is_space_def code_def)
  have "rev (c # s @ replicate n (CHR '' '')) = replicate n (CHR '' '') @ rev (c # s)"
    by simp
  moreover have "dropWhile is_space (replicate n (CHR '' '') @ rev (c # s))
      = dropWhile is_space (rev (c # s))"
    by (rule dropWhile_append2) (simp add: sp)
  ultimately have "dropWhile is_space (rev (c # s @ replicate n (CHR '' '')))
      = dropWhile is_space (rev (c # s))"
    by (simp only:)
  then show ?thesis
    using assms by (simp add: strip_def)
qed

lemma assign_str_padded: "assign_str (''42'' @ replicate 10239 (CHR '' '')) = NInt 42"
proof -
  have "map to_ascii_space (''42'' @ replicate 10239 (CHR '' '')) = ''42'' @ replicate 10239 (CHR '' '')"
    by (simp add: to_ascii_space_def code_def)
  moreover have "strip (''42'' @ replicate 10239 (CHR '' '')) = strip ''42''"
    using strip_trailing_spaces [of "CHR ''4''" "''2''" 10239]
    by (simp add: is_space_def code_def)
  ultimately have "literal (''42'' @ replicate 10239 (CHR '' '')) = literal ''42''"
    by (simp add: literal_def to_ascii_space_def code_def)
  then have "int_of_str (''42'' @ replicate 10239 (CHR '' '')) = int_of_str ''42''"
    by (simp only: int_of_str_def)
  moreover have "int_of_str ''42'' = Some 42"
    by code_simp
  ultimately show ?thesis
    by (simp only: assign_str_def option.case)
qed

theorem parse_header_string_threshold_counterexample:
  "length ''42'' \<le> 10240
   \<and> parse_header [(''SeriesNumber'', Val (VStr ''42''))] = [(''SeriesNumber'', NStr ''42'')]
   \<and> assign_type (VStr ''42'') = Inr (NInt 42)
   \<and> 10240 < length (''42'' @ replicate 10239 (CHR '' ''))
   \<and> parse_header [(''SeriesNumber'', Val (VStr (''42'' @ replicate 10239 (CHR '' ''))))]
       = [(''SeriesNumber'', NInt 42)]"
proof -
  define long where "long = ''42'' @ replicate 10239 (CHR '' '')"
  have short: "parse_header [(''SeriesNumber'', Val (VStr ''42''))] = [(''SeriesNumber'', NStr ''42'')]"
    by code_simp
  have coerced: "assign_type (VStr ''42'') = Inr (NInt 42)"
    by code_simp
  have tag: "''SeriesNumber'' \<notin> set exclude_tags"
    by (simp add: exclude_tags_def)
  have len: "length long = 10241"
    by (simp add: long_def)
  then have ne: "long \<noteq> []"
    by auto
  have num: "assign_str long = NInt 42"
    unfolding long_def by (rule assign_str_padded)
  have "parse_tag ''SeriesNumber'' (Val (VStr long)) [] = [(''SeriesNumber'', NInt 42)]"
    using tag len ne num by (simp add: parse_tag_def)
  then have "parse_header [(''SeriesNumber'', Val (VStr long))] = [(''SeriesNumber'', NInt 42)]"
    by (simp add: parse_header_def)
  with short coerced len show ?thesis
    unfolding long_def by simp
qed

subsection \<open>The trailer\<close>

lemma length_MAGIC_STR: "length MAGIC_STR = 20"
  by (simp add: MAGIC_STR_def)

lemma dcm_buf_trailer:
  assumes "length fld = 4"
  shows "dcm_buf host (pre @ fld @ MAGIC_STR) =
     (if int (length pre) < unpack_i host fld then Inl OSError
      else read_at (pre @ fld @ MAGIC_STR) (nat (int (length pre) - unpack_i host fld))
             (unpack_i host fld))"
proof -
  let ?f = "pre @ fld @ MAGIC_STR"
  have s0: "seek_end (length ?f) (- int MAGIC_STR_LEN) = Inr (length pre + 4)"
    using assms by (simp add: seek_end_def MAGIC_STR_LEN_def length_MAGIC_STR)
  have r0: "read_at ?f (length pre + 4) (int MAGIC_STR_LEN) = Inr MAGIC_STR"
    using assms by (simp add: read_at_def MAGIC_STR_LEN_def length_MAGIC_STR)
  have s1: "seek_end (length ?f) (- int MAGIC_STR_LEN - int calcsize_i) = Inr (length pre)"
    using assms by (simp add: seek_end_def MAGIC_STR_LEN_def length_MAGIC_STR calcsize_i_def)
  have r1: "read_at ?f (length pre) (int calcsize_i) = Inr fld"
    using assms by (simp add: read_at_def calcsize_i_def)
  have s2: "seek_end (length ?f) (- unpack_i host fld - int MAGIC_STR_LEN - int calcsize_i) =
      (if int (length pre) < unpack_i host fld then Inl OSError
       else Inr (nat (int (length pre) - unpack_i host fld)))"
    using assms by (simp add: seek_end_def MAGIC_STR_LEN_def length_MAGIC_STR calcsize_i_def)
  show ?thesis
    by (cases "int (length pre) < unpack_i host fld")
      (simp_all only: dcm_buf_def s0 r0 s1 r1 s2 Let_def sum.case simp_thms if_False if_True)
qed

text \<open>
  C3. When the file ends with the magic string and the four bytes before it, read as a
  signed integer in the byte order of the machine, give more than the number of bytes in
  front of them, the third \<open>seek\<close> would land before the start of the file and raises
  OSError (the TruncatedFileError of the specification): no byte of the header is read,
  \<open>ptd_reader\<close> and the script end with that error, and no document is written.
\<close>

theorem ptd_reader_truncated:
  assumes "length fld = 4" and "int (length pre) < unpack_i host fld"
  shows "dcm_buf host (pre @ fld @ MAGIC_STR) = Inl OSError
     \<and> ptd_reader read_file host (pre @ fld @ MAGIC_STR) = Inl OSError
     \<and> script read_file host ptd_file ptd_name hierarchy_level (pre @ fld @ MAGIC_STR)
         = Inl (if endswith ptd_file ''.ptd'' then OSError else NotPetFile)"
proof -
  have "dcm_buf host (pre @ fld @ MAGIC_STR) = Inl OSError"
    using assms by (simp only: dcm_buf_trailer if_True)
  then show ?thesis
    by (simp add: ptd_reader_def script_def)
qed

theorem ptd_reader_truncated_witness:
  "length [CHR 0x01, CHR 0x00, CHR 0x00, CHR 0x00] = 4
   \<and> int (length ([] :: string)) < unpack_i LittleEndian [CHR 0x01, CHR 0x00, CHR 0x00, CHR 0x00]
   \<and> dcm_buf LittleEndian ([] @ [CHR 0x01, CHR 0x00, CHR 0x00, CHR 0x00] @ MAGIC_STR) = Inl OSError
   \<and> script (\<lambda>b. None) LittleEndian ''scan.ptd'' ''scan.ptd'' ''acquisition''
        ([] @ [CHR 0x01, CHR 0x00, CHR 0x00, CHR 0x00] @ MAGIC_STR) = Inl OSError"
proof -
  have u: "unpack_i LittleEndian [CHR 0x01, CHR 0x00, CHR 0x00, CHR 0x00] = 1"
    by code_simp
  have e: "endswith ''scan.ptd'' ''.ptd''"
    by code_simp
  show ?thesis
    using ptd_reader_truncated [of "[CHR 0x01, CHR 0x00, CHR 0x00, CHR 0x00]" "[]" LittleEndian
        "\<lambda>b. None" "''scan.ptd''" "''scan.ptd''" "''acquisition''"] u e
    by simp
qed

text \<open>
  C9, as amended. When the file has at least 20 bytes and its last 20 bytes are not the
  magic string, \<open>ptd_reader\<close> prints its message and leaves with \<open>sys.exit(1)\<close>: the
  script ends with status 1 before anything is decoded or written. A file of fewer than
  20 bytes does not reach the comparison: the first \<open>seek\<close> raises OSError.
\<close>

theorem ptd_reader_magic_mismatch:
  assumes "MAGIC_STR_LEN \<le> length f" and "drop (length f - MAGIC_STR_LEN) f \<noteq> MAGIC_STR"
  shows "dcm_buf host f = Inl NotPtdFile
     \<and> ptd_reader read_file host f = Inl NotPtdFile
     \<and> script read_file host ptd_file ptd_name hierarchy_level f
         = Inl (if endswith ptd_file ''.ptd'' then NotPtdFile else NotPetFile)
     \<and> exit_status NotPtdFile = 1"
proof -
  have s0: "seek_end (length f) (- int MAGIC_STR_LEN) = Inr (length f - MAGIC_STR_LEN)"
    using assms(1) by (simp add: seek_end_def nat_diff_distrib)
  have r0: "read_at f (length f - MAGIC_STR_LEN) (int MAGIC_STR_LEN)
      = Inr (drop (length f - MAGIC_STR_LEN) f)"
    using assms(1) by (simp add: read_at_def)
  have "dcm_buf host f = Inl NotPtdFile"
    using assms(2) by (simp only: dcm_buf_def s0 r0 sum.case if_True simp_thms)
  then show ?thesis
    by (simp add: ptd_reader_def script_def exit_status_def)
qed

theorem ptd_reader_magic_mismatch_witness:
  "MAGIC_STR_LEN \<le> length ''LARGE_PET_LM_RAWDATA!''
   \<and> drop (length ''LARGE_PET_LM_RAWDATA!'' - MAGIC_STR_LEN) ''LARGE_PET_LM_RAWDATA!'' \<noteq> MAGIC_STR
   \<and> script (\<lambda>b. None) LittleEndian ''scan.ptd'' ''scan.ptd'' ''acquisition''
        ''LARGE_PET_LM_RAWDATA!'' = Inl NotPtdFile"
proof -
  have a: "MAGIC_STR_LEN \<le> length ''LARGE_PET_LM_RAWDATA!''"
    by code_simp
  have b: "drop (length ''LARGE_PET_LM_RAWDATA!'' - MAGIC_STR_LEN) ''LARGE_PET_LM_RAWDATA!'' \<noteq> MAGIC_STR"
    by code_simp
  have e: "endswith ''scan.ptd'' ''.ptd''"
    by code_simp
  show ?thesis
    using ptd_reader_magic_mismatch [OF a b, where read_file = "\<lambda>b. None"
        and host = LittleEndian and ptd_file = "''scan.ptd''" and ptd_name = "''scan.ptd''"
        and hierarchy_level = "''acquisition''"] a b e
    by simp
qed

theorem ptd_reader_magic_mismatch_counterexample:
  "drop (length ([] :: string) - MAGIC_STR_LEN) [] \<noteq> MAGIC_STR
   \<and> dcm_buf LittleEndian [] = Inl OSError
   \<and> script (\<lambda>b. None) LittleEndian ''scan.ptd'' ''scan.ptd'' ''acquisition'' [] = Inl OSError
   \<and> OSError \<noteq> NotPtdFile"
  by code_simp


lemma code_char_of: "code (char_of (m :: nat)) = m mod 256"
  by (simp add: code_def)

lemma four_bytes:
  assumes "n < 2 ^ 32"
  shows "int (n mod 256) + 256 * (int (n div 256 mod 256) + 256 * (int (n div 65536 mod 256)
      + 256 * (int (n div 16777216 mod 256) + 256 * 0))) = int n"
proof -
  define a where "a = n div 256"
  define b where "b = a div 256"
  define c where "c = b div 256"
  define r0 where "r0 = n mod 256"
  define r1 where "r1 = a mod 256"
  define r2 where "r2 = b mod 256"
  have d2: "n div 65536 = b"
    by (simp add: a_def b_def div_mult2_eq)
  have d3: "n div 16777216 = c"
    by (simp add: a_def b_def c_def div_mult2_eq)
  have "c < 256"
    using assms unfolding d3 [symmetric] by (simp add: less_mult_imp_div_less)
  then have c: "c mod 256 = c"
    by simp
  have n: "n = r0 + 256 * a"
    by (simp add: a_def r0_def)
  have a: "a = r1 + 256 * b"
    by (simp add: b_def r1_def)
  have b: "b = r2 + 256 * c"
    by (simp add: c_def r2_def)
  have "r0 + 256 * (r1 + 256 * (r2 + 256 * c)) = n"
    by (simp only: b [symmetric] a [symmetric] n [symmetric])
  then have "int (r0 + 256 * (r1 + 256 * (r2 + 256 * c))) = int n"
    by (rule arg_cong)
  then have main: "int r0 + 256 * (int r1 + 256 * (int r2 + 256 * (int c + 256 * 0))) = int n"
    by simp
  show ?thesis
    by (simp only: d2 d3 a_def [symmetric] r0_def [symmetric] r1_def [symmetric]
        r2_def [symmetric] c main)
qed

lemma unsigned_le_littleEndianLen4:
  assumes "n < 2 ^ 32"
  shows "unsigned_le (littleEndianLen4 n) = int n"
proof -
  have "unsigned_le (littleEndianLen4 n) =
      int (n mod 256) + 256 * (int (n div 256 mod 256) + 256 * (int (n div 65536 mod 256)
      + 256 * (int (n div 16777216 mod 256) + 256 * 0)))"
    by (simp only: unsigned_le_def littleEndianLen4_def foldr.simps o_apply id_apply code_char_of)
  also have "\<dots> = int n"
    using assms by (rule four_bytes)
  finally show ?thesis .
qed

lemma length_littleEndianLen4: "length (littleEndianLen4 n) = 4"
  by (simp add: littleEndianLen4_def)

text \<open>
  C4, as amended. On a little-endian machine, for a header of fewer than \<open>2 ^ 31\<close>
  bytes, the bytes extracted from the header followed by its length on four bytes in
  little-endian order and by the magic string are the header. From \<open>2 ^ 31\<close> bytes on
  the four bytes are read as a negative integer, and the read raises ValueError.
\<close>

theorem dcm_buf_round_trip:
  assumes "length header_bytes < 2 ^ 31"
  shows "dcm_buf LittleEndian (header_bytes @ littleEndianLen4 (length header_bytes) @ MAGIC_STR)
     = Inr header_bytes"
proof -
  have "unsigned_le (littleEndianLen4 (length header_bytes)) = int (length header_bytes)"
    using assms by (simp add: unsigned_le_littleEndianLen4)
  then have u: "unpack_i LittleEndian (littleEndianLen4 (length header_bytes))
      = int (length header_bytes)"
    using assms by (simp add: unpack_i_def)
  show ?thesis
    by (simp add: dcm_buf_trailer [OF length_littleEndianLen4] u read_at_def)
qed

theorem dcm_buf_round_trip_witness:
  "length ''abc'' < 2 ^ 31
   \<and> dcm_buf LittleEndian (''abc'' @ littleEndianLen4 (length ''abc'') @ MAGIC_STR) = Inr ''abc''"
  using dcm_buf_round_trip [of "''abc''"] by simp

text \<open>
  A header of \<open>2 ^ 31\<close> bytes is not given back on a little-endian machine, and a
  header of one byte is not given back on a big-endian one, where the four bytes
  \<open>01 00 00 00\<close> are read as 16777216.
\<close>

theorem dcm_buf_round_trip_counterexample:
  "length (replicate 2147483648 (CHR 0x00)) = 2147483648
   \<and> dcm_buf LittleEndian (replicate 2147483648 (CHR 0x00) @ littleEndianLen4 2147483648 @ MAGIC_STR)
       = Inl ValueError
   \<and> dcm_buf BigEndian (''a'' @ littleEndianLen4 (length ''a'') @ MAGIC_STR) = Inl OSError"
proof -
  have v: "unpack_i BigEndian (littleEndianLen4 (length ''a'')) = 16777216"
    by (simp add: unpack_i_def unsigned_le_def littleEndianLen4_def code_def)
  have big: "dcm_buf BigEndian (''a'' @ littleEndianLen4 (length ''a'') @ MAGIC_STR) = Inl OSError"
    by (simp only: dcm_buf_trailer [OF length_littleEndianLen4] v) simp
  define h where "h = replicate 2147483648 (CHR 0x00)"
  have len: "length h = 2147483648"
    by (simp add: h_def)
  have "unsigned_le (littleEndianLen4 2147483648) = 2147483648"
    using unsigned_le_littleEndianLen4 [of 2147483648] by simp
  then have u: "unpack_i LittleEndian (littleEndianLen4 2147483648) = - 2147483648"
    by (simp add: unpack_i_def)
  have "dcm_buf LittleEndian (h @ littleEndianLen4 2147483648 @ MAGIC_STR) =
     (if int (length h) < - 2147483648 then Inl OSError
      else read_at (h @ littleEndianLen4 2147483648 @ MAGIC_STR)
             (nat (int (length h) - - 2147483648)) (- 2147483648))"
    by (simp only: dcm_buf_trailer [OF length_littleEndianLen4] u)
  also have "\<dots> = Inl ValueError"
    by (simp add: len read_at_def)
  finally have "dcm_buf LittleEndian (h @ littleEndianLen4 2147483648 @ MAGIC_STR) = Inl ValueError" .
  with len big show ?thesis
    unfolding h_def by (intro conjI)
qed

subsection \<open>Groups of a sequence\<close>

lemma merged_refl_empty: "merged [] x x"
  by (simp add: merged_def split: sum.split)









end
